theory Spec2Isabelle
  imports Main
begin

section \<open>JavaScript values and thrown errors\<close>

text \<open>
  The private-game service (\<^verbatim>\<open>src/backend/src/services/privateService.js\<close>) hands
  JavaScript values to its callers: \<^verbatim>\<open>null\<close>, numbers, strings, arrays and plain
  objects. An object is a list of key/value pairs in insertion order. A thrown
  \<^verbatim>\<open>Error\<close> is a value carrying its message; every service function returns either
  the thrown error (\<open>Inl\<close>) or the value it returns (\<open>Inr\<close>).
\<close>

datatype js_value =
    Null
  | Num int
  | Str string
  | Arr "js_value list"
  | Obj "(string \<times> js_value) list"

datatype js_error = Error string

fun message :: "js_error \<Rightarrow> string" where
  "message (Error m) = m"

section \<open>The two tables\<close>

text \<open>
  Modelled from the spec: \<^verbatim>\<open>models/Game.js\<close> and \<^verbatim>\<open>models/Private.js\<close> are required by
  the service but are not among the sources. The spec (section 3) gives a Game an
  id (a generated unique identifier) and a status of an enumeration of which only
  ACTIVE is used, and a PrivateGame the fields id, passwd, link, maxPlayers and
  currentPlayers, keyed by the same id as its Game (a shared primary key), with no
  constraint on maxPlayers or currentPlayers enforced. The service's documentation
  types the id as a number.
\<close>

datatype GAME_STATUS = ACTIVE | Other_status string

record Game =
  game_id :: int
  status :: GAME_STATUS

record Priv =
  priv_id :: int
  passwd :: string
  link :: string
  maxPlayers :: int
  currentPlayers :: int

text \<open>
  The database: the rows of both tables in insertion order, and the sequence that
  generates Game ids.
\<close>

record store =
  games :: "Game list"
  privs :: "Priv list"
  next_id :: int

definition empty_store :: store where
  "empty_store = \<lparr>games = [], privs = [], next_id = 1\<rparr>"

section \<open>The ORM calls the service makes\<close>

text \<open>
  Modelled from the spec: the model classes are absent, so the ORM calls the
  service makes (create on both models; findAll, findOne and destroy on the
  private games) are modelled over the tables above, as the relational store of
  spec section 6: create, find and destroy, queried by exact-match filters. An
  insert whose primary key is already present is rejected with an error and
  leaves the table as it was; the sequence advances whether or not the insert
  succeeds. Loss of the database connection is outside the model: reads and
  deletes always answer, so the \<open>Inl\<close> branch of a handler is reached only from an
  error the model raises.
\<close>

definition unique_violation :: js_error where
  "unique_violation = Error ''Validation error''"

definition Game_create :: "GAME_STATUS \<Rightarrow> store \<Rightarrow> (js_error + Game) \<times> store" where
  "Game_create st s =
     (let i = next_id s; s1 = s\<lparr>next_id := i + 1\<rparr> in
      if i \<in> set (map game_id (games s)) then (Inl unique_violation, s1)
      else (Inr \<lparr>game_id = i, status = st\<rparr>,
            s1\<lparr>games := games s @ [\<lparr>game_id = i, status = st\<rparr>]\<rparr>))"

definition Priv_create :: "Priv \<Rightarrow> store \<Rightarrow> (js_error + Priv) \<times> store" where
  "Priv_create row s =
     (if priv_id row \<in> set (map priv_id (privs s)) then (Inl unique_violation, s)
      else (Inr row, s\<lparr>privs := privs s @ [row]\<rparr>))"

text \<open>A row as the object the ORM hands out, all columns present.\<close>

definition Priv_fields :: "Priv \<Rightarrow> (string \<times> js_value) list" where
  "Priv_fields r =
     [(''id'', Num (priv_id r)),
      (''passwd'', Str (passwd r)),
      (''link'', Str (link r)),
      (''maxPlayers'', Num (maxPlayers r)),
      (''currentPlayers'', Num (currentPlayers r))]"

text \<open>\<^verbatim>\<open>attributes: [...]\<close> keeps the named columns, in the order they are named.\<close>

definition select_attributes :: "string list \<Rightarrow> Priv \<Rightarrow> (string \<times> js_value) list" where
  "select_attributes attributes r =
     List.map_filter (\<lambda>a. map_option (Pair a) (map_of (Priv_fields r) a)) attributes"

text \<open>\<^verbatim>\<open>where: {k1: v1, k2: v2}\<close> selects the rows whose columns equal all the given
  values.\<close>

definition matches :: "(string \<times> js_value) list \<Rightarrow> Priv \<Rightarrow> bool" where
  "matches wh r = list_all (\<lambda>(k, v). map_of (Priv_fields r) k = Some v) wh"

definition Priv_findAll :: "string list \<Rightarrow> store \<Rightarrow> js_error + (string \<times> js_value) list list" where
  "Priv_findAll attributes s = Inr (map (select_attributes attributes) (privs s))"

definition Priv_findOne :: "(string \<times> js_value) list \<Rightarrow> store \<Rightarrow> js_error + Priv option" where
  "Priv_findOne wh s = Inr (find (matches wh) (privs s))"

definition Priv_destroy :: "(string \<times> js_value) list \<Rightarrow> store \<Rightarrow> (js_error + int) \<times> store" where
  "Priv_destroy wh s =
     (Inr (int (length (filter (matches wh) (privs s)))),
      s\<lparr>privs := filter (\<lambda>r. \<not> matches wh r) (privs s)\<rparr>)"

section \<open>The service\<close>

subsection \<open>createPrivateGame\<close>

text \<open>
  The source binds \<^verbatim>\<open>link\<close> to a literal where the call to the game server will
  be (the call itself is commented out). \<open>createPrivateGame_try\<close> is the body of
  the \<^verbatim>\<open>try\<close> block after that binding, for any value of \<^verbatim>\<open>link\<close>: a string,
  or nothing (\<^verbatim>\<open>undefined\<close> or \<^verbatim>\<open>null\<close>, here \<open>None\<close>). \<^verbatim>\<open>!link\<close> holds of nothing
  and of the empty string. \<open>createPrivateGame_with\<close> adds the \<^verbatim>\<open>catch\<close>;
  \<open>createPrivateGame\<close> is the function as written, with the literal. The
  \<^verbatim>\<open>console.error\<close> of the handler is not modelled.
\<close>

definition no_endpoint :: js_error where
  "no_endpoint = Error ''No se pudo obtener el endpoint de la partida privada''"

definition createPrivateGame_try ::
  "string option \<Rightarrow> string \<Rightarrow> int \<Rightarrow> store \<Rightarrow> (js_error + string) \<times> store" where
  "createPrivateGame_try lnk pw maxP s =
     (case lnk of
        None \<Rightarrow> (Inl no_endpoint, s)
      | Some l \<Rightarrow>
          if l = [] then (Inl no_endpoint, s)
          else
            (case Game_create ACTIVE s of
               (Inl e, s1) \<Rightarrow> (Inl e, s1)
             | (Inr newGame, s1) \<Rightarrow>
                 (case Priv_create \<lparr>priv_id = game_id newGame, passwd = pw, link = l,
                                     maxPlayers = maxP, currentPlayers = 0\<rparr> s1 of
                    (Inl e, s2) \<Rightarrow> (Inl e, s2)
                  | (Inr newPrivateGame, s2) \<Rightarrow> (Inr (link newPrivateGame), s2))))"

definition createPrivateGame_with ::
  "string option \<Rightarrow> string \<Rightarrow> int \<Rightarrow> store \<Rightarrow> (js_error + string) \<times> store" where
  "createPrivateGame_with lnk pw maxP s =
     (case createPrivateGame_try lnk pw maxP s of
        (Inl error, s') \<Rightarrow>
          (Inl (Error (''Error creando partida privada: '' @ message error)), s')
      | (Inr v, s') \<Rightarrow> (Inr v, s'))"

definition endpoint :: string where
  "endpoint = ''http://localhost:3000/api/privateGames''"

definition createPrivateGame :: "string \<Rightarrow> int \<Rightarrow> store \<Rightarrow> (js_error + string) \<times> store" where
  "createPrivateGame pw maxP s = createPrivateGame_with (Some endpoint) pw maxP s"

subsection \<open>getPrivateGames\<close>

definition getPrivateGames :: "store \<Rightarrow> js_error + js_value" where
  "getPrivateGames s =
     (case Priv_findAll [''id'', ''maxPlayers'', ''currentPlayers''] s of
        Inl error \<Rightarrow> Inl (Error (''Error obteniendo partidas privadas: '' @ message error))
      | Inr privateGames \<Rightarrow> Inr (Obj [(''privateGames'', Arr (map Obj privateGames))]))"

subsection \<open>joinPrivateGame\<close>

definition joinPrivateGame :: "int \<Rightarrow> string \<Rightarrow> store \<Rightarrow> js_error + js_value" where
  "joinPrivateGame gameId pw s =
     (case Priv_findOne [(''id'', Num gameId), (''passwd'', Str pw)] s of
        Inl error \<Rightarrow> Inl (Error (''Error uniendo a la partida privada: '' @ message error))
      | Inr None \<Rightarrow> Inr Null
      | Inr (Some privateGame) \<Rightarrow> Inr (Obj [(''link'', Str (link privateGame))]))"

subsection \<open>deletePrivateGame\<close>

text \<open>\<^verbatim>\<open>!deletedGame\<close> holds of a row count exactly when it is 0. The
  \<^verbatim>\<open>console.log\<close> of the count is not modelled.\<close>

definition deletePrivateGame :: "int \<Rightarrow> store \<Rightarrow> (js_error + js_value) \<times> store" where
  "deletePrivateGame gameId s =
     (case Priv_destroy [(''id'', Num gameId)] s of
        (Inl error, s') \<Rightarrow>
          (Inl (Error (''Error eliminando partida privada: '' @ message error)), s')
      | (Inr deletedGame, s') \<Rightarrow>
          (if deletedGame = 0 then (Inr Null, s') else (Inr (Num deletedGame), s')))"

subsection \<open>getPlayers\<close>

definition getPlayers :: "int \<Rightarrow> store \<Rightarrow> js_error + js_value" where
  "getPlayers gameId s =
     (case Priv_findOne [(''id'', Num gameId)] s of
        Inl error \<Rightarrow>
          Inl (Error (''Error obteniendo jugadores de la partida privada: '' @ message error))
      | Inr None \<Rightarrow> Inr Null
      | Inr (Some privateGame) \<Rightarrow> Inr (Num (currentPlayers privateGame)))"

subsection \<open>Sequences of calls\<close>

text \<open>The five exported functions as requests, and the store after serving a list
  of them in order. The three reads leave the store as it is.\<close>

datatype request =
    CreatePrivateGame string int
  | GetPrivateGames
  | JoinPrivateGame int string
  | DeletePrivateGame int
  | GetPlayers int

fun serve :: "request \<Rightarrow> store \<Rightarrow> store" where
  "serve (CreatePrivateGame pw maxP) s = snd (createPrivateGame pw maxP s)"
| "serve GetPrivateGames s = s"
| "serve (JoinPrivateGame gameId pw) s = s"
| "serve (DeletePrivateGame gameId) s = snd (deletePrivateGame gameId s)"
| "serve (GetPlayers gameId) s = s"

fun run :: "request list \<Rightarrow> store \<Rightarrow> store" where
  "run [] s = s"
| "run (q # qs) s = run qs (serve q s)"

subsection \<open>A store with one private game\<close>

text \<open>The store after \<^verbatim>\<open>createPrivateGame("abc123", 4)\<close> on the empty database.\<close>

definition example_store :: store where
  "example_store =
     \<lparr>games = [\<lparr>game_id = 1, status = ACTIVE\<rparr>],
      privs = [\<lparr>priv_id = 1, passwd = ''abc123'', link = endpoint,
                maxPlayers = 4, currentPlayers = 0\<rparr>],
      next_id = 2\<rparr>"

subsection \<open>Stores whose ids all lie below the sequence\<close>

text \<open>Every id in either table was generated earlier by the sequence.\<close>

definition ids_below :: "store \<Rightarrow> bool" where
  "ids_below s \<longleftrightarrow>
     (\<forall>g \<in> set (games s). game_id g < next_id s) \<and>
     (\<forall>r \<in> set (privs s). priv_id r < next_id s)"

section \<open>Basic facts about the ORM model\<close>

lemma matches_id [simp]:
  "matches [(''id'', Num g)] = (\<lambda>r. priv_id r = g)"
  by (rule ext) (simp add: matches_def Priv_fields_def)

lemma matches_id_passwd [simp]:
  "matches [(''id'', Num g), (''passwd'', Str p)] = (\<lambda>r. priv_id r = g \<and> passwd r = p)"
  by (rule ext) (simp add: matches_def Priv_fields_def)

lemma select_public [simp]:
  "select_attributes [''id'', ''maxPlayers'', ''currentPlayers''] r =
     [(''id'', Num (priv_id r)), (''maxPlayers'', Num (maxPlayers r)),
      (''currentPlayers'', Num (currentPlayers r))]"
  by (simp add: select_attributes_def Priv_fields_def List.map_filter_simps)

lemma deletePrivateGame_store:
  "snd (deletePrivateGame g s) = s\<lparr>privs := filter (\<lambda>r. priv_id r \<noteq> g) (privs s)\<rparr>"
  by (simp add: deletePrivateGame_def Priv_destroy_def)

lemma deletePrivateGame_result:
  "fst (deletePrivateGame g s) =
     (if filter (\<lambda>r. priv_id r = g) (privs s) = [] then Inr Null
      else Inr (Num (int (length (filter (\<lambda>r. priv_id r = g) (privs s))))))"
  by (simp add: deletePrivateGame_def Priv_destroy_def)

lemma find_app:
  "find P (xs @ ys) = (case find P xs of None \<Rightarrow> find P ys | Some x \<Rightarrow> Some x)"
  by (induction xs) auto

lemma find_id_None:
  "find (\<lambda>r. priv_id r = g) xs = None \<longleftrightarrow> g \<notin> set (map priv_id xs)"
  by (induction xs) auto

lemma filter_id_Nil:
  "filter (\<lambda>r. priv_id r = g) xs = [] \<longleftrightarrow> g \<notin> set (map priv_id xs)"
  by (induction xs) auto

lemma createPrivateGame_Inr_iff:
  "createPrivateGame pw maxP s = (Inr l, s') \<longleftrightarrow>
     next_id s \<notin> set (map game_id (games s)) \<and>
     next_id s \<notin> set (map priv_id (privs s)) \<and>
     l = endpoint \<and>
     s' = s\<lparr>next_id := next_id s + 1,
            games := games s @ [\<lparr>game_id = next_id s, status = ACTIVE\<rparr>],
            privs := privs s @ [\<lparr>priv_id = next_id s, passwd = pw, link = endpoint,
                                 maxPlayers = maxP, currentPlayers = 0\<rparr>]\<rparr>"
  by (auto simp: createPrivateGame_def createPrivateGame_with_def createPrivateGame_try_def
      Game_create_def Priv_create_def Let_def endpoint_def split: if_splits)

lemma createPrivateGame_privs:
  "privs (snd (createPrivateGame pw maxP s)) = privs s \<or>
   privs (snd (createPrivateGame pw maxP s)) =
     privs s @ [\<lparr>priv_id = next_id s, passwd = pw, link = endpoint,
                 maxPlayers = maxP, currentPlayers = 0\<rparr>]"
  by (simp add: createPrivateGame_def createPrivateGame_with_def createPrivateGame_try_def
      Game_create_def Priv_create_def Let_def endpoint_def)

lemma createPrivateGame_games:
  "games (snd (createPrivateGame pw maxP s)) = games s \<or>
   games (snd (createPrivateGame pw maxP s)) =
     games s @ [\<lparr>game_id = next_id s, status = ACTIVE\<rparr>]"
  by (simp add: createPrivateGame_def createPrivateGame_with_def createPrivateGame_try_def
      Game_create_def Priv_create_def Let_def endpoint_def)

lemma createPrivateGame_next_id:
  "next_id (snd (createPrivateGame pw maxP s)) = next_id s + 1"
  by (simp add: createPrivateGame_def createPrivateGame_with_def createPrivateGame_try_def
      Game_create_def Priv_create_def Let_def endpoint_def)

lemma ids_below_serve: "ids_below s \<Longrightarrow> ids_below (serve q s)"
proof (cases q)
  case (CreatePrivateGame pw maxP)
  assume inv: "ids_below s"
  from createPrivateGame_privs [of pw maxP s] createPrivateGame_games [of pw maxP s]
    createPrivateGame_next_id [of pw maxP s] inv
  show ?thesis
    unfolding CreatePrivateGame ids_below_def serve.simps by fastforce
next
  case (DeletePrivateGame g)
  assume "ids_below s"
  then show ?thesis
    by (simp add: DeletePrivateGame ids_below_def deletePrivateGame_store)
qed simp_all

lemma ids_below_run: "ids_below s \<Longrightarrow> ids_below (run qs s)"
  by (induction qs arbitrary: s) (simp_all add: ids_below_serve)

lemma ids_below_fresh:
  "ids_below s \<Longrightarrow>
     next_id s \<notin> set (map game_id (games s)) \<and> next_id s \<notin> set (map priv_id (privs s))"
  by (auto simp: ids_below_def)

lemma zero_players_serve:
  "\<forall>r \<in> set (privs s). currentPlayers r = 0 \<Longrightarrow>
   \<forall>r \<in> set (privs (serve q s)). currentPlayers r = 0"
proof (cases q)
  case (CreatePrivateGame pw maxP)
  assume "\<forall>r \<in> set (privs s). currentPlayers r = 0"
  with createPrivateGame_privs [of pw maxP s] show ?thesis
    unfolding CreatePrivateGame serve.simps by auto
next
  case (DeletePrivateGame g)
  assume "\<forall>r \<in> set (privs s). currentPlayers r = 0"
  then show ?thesis
    by (simp add: DeletePrivateGame deletePrivateGame_store)
qed simp_all

lemma zero_players_run:
  "\<forall>r \<in> set (privs s). currentPlayers r = 0 \<Longrightarrow>
   \<forall>r \<in> set (privs (run qs s)). currentPlayers r = 0"
proof (induction qs arbitrary: s)
  case Nil
  then show ?case by simp
next
  case (Cons q qs)
  from Cons.prems have "\<forall>r \<in> set (privs (serve q s)). currentPlayers r = 0"
    by (rule zero_players_serve)
  then show ?case
    using Cons.IH by simp
qed

lemma getPlayers_find:
  "getPlayers g s =
     (case find (\<lambda>r. priv_id r = g) (privs s) of
        None \<Rightarrow> Inr Null | Some r \<Rightarrow> Inr (Num (currentPlayers r)))"
  by (simp add: getPlayers_def Priv_findOne_def split: option.split)

lemma run_empty_store_fresh:
  "next_id (run qs empty_store) \<notin> set (map game_id (games (run qs empty_store))) \<and>
   next_id (run qs empty_store) \<notin> set (map priv_id (privs (run qs empty_store)))"
  by (rule ids_below_fresh, rule ids_below_run) (simp add: ids_below_def empty_store_def)

lemma createPrivateGame_failure:
  "fst (createPrivateGame pw maxP s) = Inl e \<Longrightarrow>
     e = Error (''Error creando partida privada: '' @ message unique_violation)"
  by (auto simp: createPrivateGame_def createPrivateGame_with_def createPrivateGame_try_def
      Game_create_def Priv_create_def Let_def endpoint_def split: if_splits)

text \<open>
  The guard of the body comes before both inserts: for a value of \<^verbatim>\<open>link\<close> that is
  nothing or the empty string the body leaves the store as it is and the handler
  wraps the guard's message. The function as written binds \<^verbatim>\<open>link\<close> to a non-empty
  literal, so it never takes that branch.
\<close>

lemma createPrivateGame_with_guard:
  "lnk = None \<or> lnk = Some [] \<Longrightarrow>
     createPrivateGame_with lnk pw maxP s =
       (Inl (Error (''Error creando partida privada: '' @ message no_endpoint)), s)"
  by (auto simp: createPrivateGame_with_def createPrivateGame_try_def)

lemma createPrivateGame_never_no_endpoint:
  "fst (createPrivateGame pw maxP s) \<noteq>
     Inl (Error (''Error creando partida privada: '' @ message no_endpoint))"
  by (auto simp: createPrivateGame_def createPrivateGame_with_def createPrivateGame_try_def
      Game_create_def Priv_create_def Let_def endpoint_def no_endpoint_def unique_violation_def
      split: if_splits)

section \<open>Properties of the service\<close>

text \<open>
  C1. A successful createPrivateGame(passwd, maxPlayers) returns the endpoint (a
  string, nothing else), appends exactly one Game row, with status ACTIVE and the
  id the sequence generated, and exactly one PrivateGame row with that same id,
  the given passwd, the endpoint as link, the given maxPlayers and
  currentPlayers = 0.
\<close>

theorem createPrivateGame_success:
  assumes "createPrivateGame pw maxP s = (Inr l, s')"
  shows "l = endpoint \<and>
         games s' = games s @ [\<lparr>game_id = next_id s, status = ACTIVE\<rparr>] \<and>
         privs s' = privs s @ [\<lparr>priv_id = next_id s, passwd = pw, link = endpoint,
                                 maxPlayers = maxP, currentPlayers = 0\<rparr>]"
  using assms by (simp add: createPrivateGame_Inr_iff)

theorem createPrivateGame_success_witness:
  "createPrivateGame ''abc123'' 4 empty_store = (Inr endpoint, example_store) \<and>
   games example_store = [\<lparr>game_id = 1, status = ACTIVE\<rparr>] \<and>
   privs example_store = [\<lparr>priv_id = 1, passwd = ''abc123'', link = endpoint,
                            maxPlayers = 4, currentPlayers = 0\<rparr>]"
proof -
  have h: "createPrivateGame ''abc123'' 4 empty_store = (Inr endpoint, example_store)"
    by (simp add: createPrivateGame_Inr_iff empty_store_def example_store_def)
  from createPrivateGame_success [OF h] h show ?thesis
    by (simp add: empty_store_def)
qed

text \<open>
  C2. joinPrivateGame(gameId, passwd) returns an object holding the stored link of
  a row whose id and passwd both equal the arguments when there is such a row,
  and returns null, without throwing, when there is none (wrong id, wrong
  password, or both).
\<close>

theorem joinPrivateGame_iff:
  "((\<exists>r \<in> set (privs s). priv_id r = gameId \<and> passwd r = pw) \<longrightarrow>
      (\<exists>r \<in> set (privs s). priv_id r = gameId \<and> passwd r = pw \<and>
         joinPrivateGame gameId pw s = Inr (Obj [(''link'', Str (link r))]))) \<and>
   (\<not> (\<exists>r \<in> set (privs s). priv_id r = gameId \<and> passwd r = pw) \<longrightarrow>
      joinPrivateGame gameId pw s = Inr Null)"
proof (cases "find (\<lambda>r. priv_id r = gameId \<and> passwd r = pw) (privs s)")
  case None
  then have "\<not> (\<exists>r \<in> set (privs s). priv_id r = gameId \<and> passwd r = pw)"
    by (simp add: find_None_iff)
  moreover from None have "joinPrivateGame gameId pw s = Inr Null"
    by (simp add: joinPrivateGame_def Priv_findOne_def)
  ultimately show ?thesis by blast
next
  case (Some r)
  then have "r \<in> set (privs s)" "priv_id r = gameId" "passwd r = pw"
    by (auto simp: find_Some_iff)
  with Some show ?thesis
    by (auto simp: joinPrivateGame_def Priv_findOne_def)
qed

theorem joinPrivateGame_iff_witness:
  "joinPrivateGame 1 ''abc123'' example_store = Inr (Obj [(''link'', Str endpoint)]) \<and>
   joinPrivateGame 1 ''wrong'' example_store = Inr Null \<and>
   joinPrivateGame 2 ''abc123'' example_store = Inr Null \<and>
   joinPrivateGame 2 ''wrong'' example_store = Inr Null"
  using joinPrivateGame_iff [where s = example_store and gameId = 1 and pw = "''abc123''"]
    joinPrivateGame_iff [where s = example_store and gameId = 1 and pw = "''wrong''"]
    joinPrivateGame_iff [where s = example_store and gameId = 2 and pw = "''abc123''"]
    joinPrivateGame_iff [where s = example_store and gameId = 2 and pw = "''wrong''"]
  by (simp add: example_store_def)


text \<open>
  C4. For every store, getPrivateGames() returns, under the key privateGames of the
  object it returns, a list with one entry per stored PrivateGame row, in order,
  each entry holding exactly the fields id, maxPlayers and currentPlayers of its
  row; passwd and link are in no entry.
\<close>

theorem getPrivateGames_public_fields:
  "\<exists>entries.
     getPrivateGames s = Inr (Obj [(''privateGames'', Arr (map Obj entries))]) \<and>
     entries = map (\<lambda>r. [(''id'', Num (priv_id r)), (''maxPlayers'', Num (maxPlayers r)),
                          (''currentPlayers'', Num (currentPlayers r))]) (privs s) \<and>
     length entries = length (privs s) \<and>
     (\<forall>e \<in> set entries.
        map fst e = [''id'', ''maxPlayers'', ''currentPlayers''] \<and>
        ''passwd'' \<notin> set (map fst e) \<and> ''link'' \<notin> set (map fst e))"
proof -
  let ?entries = "map (select_attributes [''id'', ''maxPlayers'', ''currentPlayers'']) (privs s)"
  have "getPrivateGames s = Inr (Obj [(''privateGames'', Arr (map Obj ?entries))])"
    by (simp add: getPrivateGames_def Priv_findAll_def)
  moreover have "\<forall>e \<in> set ?entries.
        map fst e = [''id'', ''maxPlayers'', ''currentPlayers''] \<and>
        ''passwd'' \<notin> set (map fst e) \<and> ''link'' \<notin> set (map fst e)"
    by auto
  ultimately show ?thesis
    by (intro exI [of _ ?entries] conjI) simp_all
qed

theorem getPrivateGames_public_fields_witness:
  "getPrivateGames example_store =
     Inr (Obj [(''privateGames'',
               Arr [Obj [(''id'', Num 1), (''maxPlayers'', Num 4), (''currentPlayers'', Num 0)]])])"
  using getPrivateGames_public_fields [of example_store]
  by (auto simp: example_store_def)

text \<open>
  C5. When a PrivateGame row with the given id exists, deletePrivateGame(gameId)
  returns a positive row count and removes every row with that id and no other,
  so that a second call with the same id returns null; when no row has that id,
  the call returns null and leaves the store as it was.
\<close>

theorem deletePrivateGame_once:
  "(gameId \<in> set (map priv_id (privs s)) \<longrightarrow>
      (\<exists>n. 0 < n \<and> fst (deletePrivateGame gameId s) = Inr (Num n)) \<and>
      privs (snd (deletePrivateGame gameId s)) = filter (\<lambda>r. priv_id r \<noteq> gameId) (privs s) \<and>
      gameId \<notin> set (map priv_id (privs (snd (deletePrivateGame gameId s)))) \<and>
      fst (deletePrivateGame gameId (snd (deletePrivateGame gameId s))) = Inr Null) \<and>
   (gameId \<notin> set (map priv_id (privs s)) \<longrightarrow> deletePrivateGame gameId s = (Inr Null, s))"
proof (intro conjI impI)
  assume ex: "gameId \<in> set (map priv_id (privs s))"
  then have "filter (\<lambda>r. priv_id r = gameId) (privs s) \<noteq> []"
    by (simp add: filter_id_Nil)
  then show "\<exists>n. 0 < n \<and> fst (deletePrivateGame gameId s) = Inr (Num n)"
    by (simp add: deletePrivateGame_result)
next
  show "privs (snd (deletePrivateGame gameId s)) = filter (\<lambda>r. priv_id r \<noteq> gameId) (privs s)"
    by (simp add: deletePrivateGame_store)
next
  show "gameId \<notin> set (map priv_id (privs (snd (deletePrivateGame gameId s))))"
    by (auto simp: deletePrivateGame_store)
next
  show "fst (deletePrivateGame gameId (snd (deletePrivateGame gameId s))) = Inr Null"
    by (simp add: deletePrivateGame_result deletePrivateGame_store filter_empty_conv)
next
  assume no: "gameId \<notin> set (map priv_id (privs s))"
  then have none: "filter (\<lambda>r. priv_id r = gameId) (privs s) = []"
    by (simp add: filter_id_Nil)
  from no have "filter (\<lambda>r. priv_id r \<noteq> gameId) (privs s) = privs s"
    by (auto simp: filter_id_conv)
  then have "snd (deletePrivateGame gameId s) = s"
    by (simp add: deletePrivateGame_store)
  moreover from none have "fst (deletePrivateGame gameId s) = Inr Null"
    by (simp add: deletePrivateGame_result)
  ultimately show "deletePrivateGame gameId s = (Inr Null, s)"
    by (simp add: prod_eq_iff)
qed

theorem deletePrivateGame_once_witness:
  "deletePrivateGame 1 example_store = (Inr (Num 1), example_store\<lparr>privs := []\<rparr>) \<and>
   deletePrivateGame 1 (example_store\<lparr>privs := []\<rparr>) = (Inr Null, example_store\<lparr>privs := []\<rparr>) \<and>
   deletePrivateGame 7 example_store = (Inr Null, example_store)"
  using deletePrivateGame_once [of 1 example_store] deletePrivateGame_once [of 7 example_store]
  by (simp add: example_store_def deletePrivateGame_def Priv_destroy_def)

text \<open>
  C6. For every gameId and every store, deletePrivateGame leaves the Game table
  as it was: it never deletes a Game row, so a Game with that id that was there
  before the call is still there after it.
\<close>

theorem deletePrivateGame_keeps_games:
  "games (snd (deletePrivateGame gameId s)) = games s"
  by (simp add: deletePrivateGame_store)

theorem deletePrivateGame_keeps_games_witness:
  "privs (snd (deletePrivateGame 1 example_store)) = [] \<and>
   games (snd (deletePrivateGame 1 example_store)) = [\<lparr>game_id = 1, status = ACTIVE\<rparr>]"
  using deletePrivateGame_keeps_games [of 1 example_store]
  by (simp add: example_store_def deletePrivateGame_store)

text \<open>
  C7. getPlayers(gameId) returns the stored currentPlayers of a row with that id
  when there is one, and null when there is none. Right after a successful
  createPrivateGame it returns 0 for the id of the game just created, and after
  deletePrivateGame(gameId) it returns null for that id.
\<close>

theorem getPlayers_count:
  "(gameId \<in> set (map priv_id (privs s)) \<longrightarrow>
      (\<exists>r \<in> set (privs s). priv_id r = gameId \<and>
         getPlayers gameId s = Inr (Num (currentPlayers r)))) \<and>
   (gameId \<notin> set (map priv_id (privs s)) \<longrightarrow> getPlayers gameId s = Inr Null) \<and>
   (createPrivateGame pw maxP s = (Inr l, s') \<longrightarrow> getPlayers (next_id s) s' = Inr (Num 0)) \<and>
   getPlayers gameId (snd (deletePrivateGame gameId s)) = Inr Null"
proof (intro conjI impI)
  assume "gameId \<in> set (map priv_id (privs s))"
  then obtain r where "find (\<lambda>r. priv_id r = gameId) (privs s) = Some r"
    by (cases "find (\<lambda>r. priv_id r = gameId) (privs s)") (simp_all add: find_id_None)
  moreover from this have "r \<in> set (privs s)" "priv_id r = gameId"
    by (auto simp: find_Some_iff)
  ultimately show "\<exists>r \<in> set (privs s). priv_id r = gameId \<and>
      getPlayers gameId s = Inr (Num (currentPlayers r))"
    by (auto simp: getPlayers_find)
next
  assume "gameId \<notin> set (map priv_id (privs s))"
  then have "find (\<lambda>r. priv_id r = gameId) (privs s) = None"
    by (simp add: find_id_None)
  then show "getPlayers gameId s = Inr Null"
    by (simp add: getPlayers_find)
next
  assume "createPrivateGame pw maxP s = (Inr l, s')"
  then have fresh: "next_id s \<notin> set (map priv_id (privs s))"
    and s': "privs s' = privs s @ [\<lparr>priv_id = next_id s, passwd = pw, link = endpoint,
                                     maxPlayers = maxP, currentPlayers = 0\<rparr>]"
    by (simp_all add: createPrivateGame_Inr_iff)
  from fresh have "find (\<lambda>r. priv_id r = next_id s) (privs s) = None"
    by (simp add: find_id_None)
  then show "getPlayers (next_id s) s' = Inr (Num 0)"
    by (simp add: getPlayers_find s' find_app)
next
  have "find (\<lambda>r. priv_id r = gameId) (filter (\<lambda>r. priv_id r \<noteq> gameId) (privs s)) = None"
    by (simp add: find_None_iff)
  then show "getPlayers gameId (snd (deletePrivateGame gameId s)) = Inr Null"
    by (simp add: getPlayers_find deletePrivateGame_store)
qed

theorem getPlayers_count_witness:
  "getPlayers 1 example_store = Inr (Num 0) \<and>
   getPlayers 5 (example_store\<lparr>privs := [\<lparr>priv_id = 5, passwd = ''pw'', link = endpoint,
                                            maxPlayers = 4, currentPlayers = 3\<rparr>]\<rparr>) = Inr (Num 3) \<and>
   getPlayers 2 example_store = Inr Null \<and>
   createPrivateGame ''abc123'' 4 empty_store = (Inr endpoint, example_store) \<and>
   getPlayers (next_id empty_store) example_store = Inr (Num 0) \<and>
   getPlayers 1 (snd (deletePrivateGame 1 example_store)) = Inr Null"
proof -
  have h: "createPrivateGame ''abc123'' 4 empty_store = (Inr endpoint, example_store)"
    by (simp add: createPrivateGame_Inr_iff empty_store_def example_store_def)
  from h getPlayers_count [where gameId = 1 and s = empty_store and pw = "''abc123''"
      and maxP = 4 and l = endpoint and s' = example_store]
  have "getPlayers (next_id empty_store) example_store = Inr (Num 0)"
    by simp
  with h show ?thesis
    using getPlayers_count [where gameId = 1 and s = example_store]
    by (simp add: getPlayers_find example_store_def)
qed

text \<open>
  C8. For a stored id and any two passwords that both fail to match what is stored
  under that id, the two joinPrivateGame calls give the same result, which is
  also the result of joinPrivateGame with an id under which nothing is stored:
  null in all three cases. A wrong password cannot be told from a game that does
  not exist. (The id is the primary key, so one row is stored under it.)
\<close>

theorem joinPrivateGame_indistinguishable:
  assumes "gameId \<in> set (map priv_id (privs s))"
    and "\<forall>r \<in> set (privs s). priv_id r = gameId \<longrightarrow> passwd r \<noteq> pw1"
    and "\<forall>r \<in> set (privs s). priv_id r = gameId \<longrightarrow> passwd r \<noteq> pw2"
    and "absent \<notin> set (map priv_id (privs s))"
  shows "joinPrivateGame gameId pw1 s = Inr Null \<and>
         joinPrivateGame gameId pw2 s = joinPrivateGame gameId pw1 s \<and>
         joinPrivateGame absent pw s = joinPrivateGame gameId pw1 s"
proof -
  have "find (\<lambda>r. priv_id r = gameId \<and> passwd r = pw1) (privs s) = None"
    using assms(2) by (auto simp: find_None_iff)
  moreover have "find (\<lambda>r. priv_id r = gameId \<and> passwd r = pw2) (privs s) = None"
    using assms(3) by (auto simp: find_None_iff)
  moreover have "find (\<lambda>r. priv_id r = absent \<and> passwd r = pw) (privs s) = None"
    using assms(4) by (auto simp: find_None_iff)
  ultimately show ?thesis
    by (simp add: joinPrivateGame_def Priv_findOne_def)
qed

theorem joinPrivateGame_indistinguishable_witness:
  "1 \<in> set (map priv_id (privs example_store)) \<and>
   2 \<notin> set (map priv_id (privs example_store)) \<and>
   joinPrivateGame 1 ''wrong'' example_store = Inr Null \<and>
   joinPrivateGame 1 ''other'' example_store = joinPrivateGame 1 ''wrong'' example_store \<and>
   joinPrivateGame 2 ''abc123'' example_store = joinPrivateGame 1 ''wrong'' example_store"
proof -
  have a: "1 \<in> set (map priv_id (privs example_store))"
    and b: "\<forall>r \<in> set (privs example_store). priv_id r = 1 \<longrightarrow> passwd r \<noteq> ''wrong''"
    and c: "\<forall>r \<in> set (privs example_store). priv_id r = 1 \<longrightarrow> passwd r \<noteq> ''other''"
    and d: "2 \<notin> set (map priv_id (privs example_store))"
    by (simp_all add: example_store_def)
  from joinPrivateGame_indistinguishable [OF a b c d, of "''abc123''"] a d
  show ?thesis by simp
qed

text \<open>
  C9. In every store reached from the empty database by any sequence of calls of
  the five service functions, every PrivateGame row has currentPlayers = 0:
  creation sets it to 0 and nothing changes it.
\<close>

theorem currentPlayers_always_zero:
  "\<forall>r \<in> set (privs (run qs empty_store)). currentPlayers r = 0"
  by (rule zero_players_run) (simp add: empty_store_def)

theorem currentPlayers_always_zero_witness:
  "privs (run [CreatePrivateGame ''abc123'' 4, JoinPrivateGame 1 ''abc123'',
               CreatePrivateGame [] (- 1), GetPlayers 1, DeletePrivateGame 1,
               GetPrivateGames] empty_store)
     = [\<lparr>priv_id = 2, passwd = [], link = endpoint, maxPlayers = - 1, currentPlayers = 0\<rparr>] \<and>
   currentPlayers \<lparr>priv_id = 2, passwd = [], link = endpoint, maxPlayers = - 1,
                   currentPlayers = 0\<rparr> = 0"
  using currentPlayers_always_zero [of "[CreatePrivateGame ''abc123'' 4,
               JoinPrivateGame 1 ''abc123'', CreatePrivateGame [] (- 1), GetPlayers 1,
               DeletePrivateGame 1, GetPrivateGames]"]
  by (simp add: empty_store_def createPrivateGame_def createPrivateGame_with_def
      createPrivateGame_try_def Game_create_def Priv_create_def Let_def endpoint_def
      deletePrivateGame_store)

text \<open>
  C10. createPrivateGame validates neither argument: whenever the id the sequence
  generates is unused (as it is in every store the service itself produced), the
  call succeeds for every passwd, the empty string included, and every
  maxPlayers, negative values included, and stores both unchanged; so for a
  negative maxPlayers the store then holds a row whose currentPlayers (0)
  exceeds its maxPlayers.
\<close>

theorem createPrivateGame_no_validation:
  assumes "next_id s \<notin> set (map game_id (games s))"
    and "next_id s \<notin> set (map priv_id (privs s))"
  shows "\<exists>s'. createPrivateGame pw maxP s = (Inr endpoint, s') \<and>
           privs s' = privs s @ [\<lparr>priv_id = next_id s, passwd = pw, link = endpoint,
                                   maxPlayers = maxP, currentPlayers = 0\<rparr>] \<and>
           (maxP < 0 \<longrightarrow> (\<exists>r \<in> set (privs s'). maxPlayers r < currentPlayers r))"
  using assms by (auto simp: createPrivateGame_Inr_iff)

theorem createPrivateGame_no_validation_witness:
  "fst (createPrivateGame [] (- 1) empty_store) = Inr endpoint \<and>
   privs (snd (createPrivateGame [] (- 1) empty_store)) =
     [\<lparr>priv_id = 1, passwd = [], link = endpoint, maxPlayers = - 1, currentPlayers = 0\<rparr>] \<and>
   maxPlayers \<lparr>priv_id = 1, passwd = [], link = endpoint, maxPlayers = - 1,
               currentPlayers = 0\<rparr>
     < currentPlayers \<lparr>priv_id = 1, passwd = [], link = endpoint, maxPlayers = - 1,
                       currentPlayers = 0\<rparr>"
proof -
  have a: "next_id empty_store \<notin> set (map game_id (games empty_store))"
    and b: "next_id empty_store \<notin> set (map priv_id (privs empty_store))"
    by (simp_all add: empty_store_def)
  from createPrivateGame_no_validation [OF a b, of "[]" "- 1"] show ?thesis
    by (auto simp: empty_store_def)
qed

end
